theory Spec2Isabelle
  imports Complex_Main "HOL-Library.Word"
begin

section \<open>The helper \<open>shorten_param\<close> of the hyper-parameter search notebook\<close>

text \<open>
  The notebook \<^verbatim>\<open>04_parameter_tuning_search\<close> defines
  \<^verbatim>\<open>
  def shorten_param(param_name):
      if "__" in param_name:
          return param_name.rsplit("__", 1)[1]
      return param_name
  \<close>
  and hands it to \<open>DataFrame.rename\<close>, which applies it to every column label.
  The three Python string primitives it uses are written out first: the substring test
  \<open>sep in s\<close>, \<open>s.rsplit(sep, 1)\<close> (which cuts at the occurrence found by scanning from
  the right end) and list indexing, which raises \<open>IndexError\<close> out of range.
\<close>

datatype py_error = IndexError

fun startswith :: "string \<Rightarrow> string \<Rightarrow> bool" where
  "startswith s [] = True"
| "startswith [] (c # cs) = False"
| "startswith (x # xs) (c # cs) = (x = c \<and> startswith xs cs)"

fun str_contains :: "string \<Rightarrow> string \<Rightarrow> bool" where
  "str_contains sep [] = startswith [] sep"
| "str_contains sep (x # xs) = (startswith (x # xs) sep \<or> str_contains sep xs)"

text \<open>\<open>rfind s sep\<close> is the highest index at which \<open>sep\<close> starts in \<open>s\<close>.\<close>

fun rfind :: "string \<Rightarrow> string \<Rightarrow> nat option" where
  "rfind [] sep = (if startswith [] sep then Some 0 else None)"
| "rfind (x # xs) sep =
     (case rfind xs sep of
        Some i \<Rightarrow> Some (Suc i)
      | None \<Rightarrow> if startswith (x # xs) sep then Some 0 else None)"

text \<open>\<open>s.rsplit(sep, 1)\<close>: at most one cut, made at the rightmost occurrence.\<close>

definition rsplit1 :: "string \<Rightarrow> string \<Rightarrow> string list" where
  "rsplit1 s sep =
     (case rfind s sep of
        None \<Rightarrow> [s]
      | Some i \<Rightarrow> [take i s, drop (i + length sep) s])"

definition getitem :: "'a list \<Rightarrow> nat \<Rightarrow> py_error + 'a" where
  "getitem xs i = (if i < length xs then Inr (xs ! i) else Inl IndexError)"

definition shorten_param :: "string \<Rightarrow> py_error + string" where
  "shorten_param param_name =
     (if str_contains ''__'' param_name
      then getitem (rsplit1 param_name ''__'') 1
      else Inr param_name)"

text \<open>
  The vocabulary of the property: \<open>sep\<close> occurs in \<open>s\<close> at index \<open>i\<close>. The string
  contains \<open>sep\<close> when it occurs at some index, and its last occurrence is the one at
  the greatest such index.
\<close>

definition occurs_at :: "string \<Rightarrow> nat \<Rightarrow> string \<Rightarrow> bool" where
  "occurs_at sep i s \<longleftrightarrow> i + length sep \<le> length s \<and> take (length sep) (drop i s) = sep"

lemma startswith_iff: "startswith s sep \<longleftrightarrow> occurs_at sep 0 s"
  unfolding occurs_at_def
  by (induction s sep rule: startswith.induct) auto

lemma occurs_at_Cons_Suc: "occurs_at sep (Suc i) (x # xs) \<longleftrightarrow> occurs_at sep i xs"
  by (simp add: occurs_at_def)

lemma str_contains_iff: "str_contains sep s \<longleftrightarrow> (\<exists>i. occurs_at sep i s)"
proof (induction s)
  case Nil
  show ?case by (auto simp: startswith_iff occurs_at_def)
next
  case (Cons x xs)
  show ?case
  proof
    assume "str_contains sep (x # xs)"
    then consider "occurs_at sep 0 (x # xs)" | "str_contains sep xs"
      by (auto simp: startswith_iff)
    then show "\<exists>i. occurs_at sep i (x # xs)"
    proof cases
      case 1
      then show ?thesis by blast
    next
      case 2
      with Cons obtain i where "occurs_at sep i xs" by blast
      then have "occurs_at sep (Suc i) (x # xs)" by (simp add: occurs_at_Cons_Suc)
      then show ?thesis by blast
    qed
  next
    assume "\<exists>i. occurs_at sep i (x # xs)"
    then obtain i where i: "occurs_at sep i (x # xs)" by blast
    show "str_contains sep (x # xs)"
    proof (cases i)
      case 0
      with i show ?thesis by (simp add: startswith_iff)
    next
      case (Suc j)
      with i have "occurs_at sep j xs" by (simp add: occurs_at_Cons_Suc)
      with Cons show ?thesis by auto
    qed
  qed
qed

lemma rfind_None: "rfind s sep = None \<longleftrightarrow> \<not> (\<exists>i. occurs_at sep i s)"
proof (induction s)
  case Nil
  show ?case by (auto simp: startswith_iff occurs_at_def)
next
  case (Cons x xs)
  show ?case
  proof
    assume "rfind (x # xs) sep = None"
    then have a: "rfind xs sep = None" and b: "\<not> occurs_at sep 0 (x # xs)"
      by (auto simp: startswith_iff split: option.splits if_splits)
    show "\<not> (\<exists>i. occurs_at sep i (x # xs))"
    proof
      assume "\<exists>i. occurs_at sep i (x # xs)"
      then obtain i where i: "occurs_at sep i (x # xs)" by blast
      show False
      proof (cases i)
        case 0
        with i b show ?thesis by simp
      next
        case (Suc j)
        with i have "occurs_at sep j xs" by (simp add: occurs_at_Cons_Suc)
        with a Cons show ?thesis by blast
      qed
    qed
  next
    assume n: "\<not> (\<exists>i. occurs_at sep i (x # xs))"
    then have "\<not> occurs_at sep 0 (x # xs)" by blast
    moreover have "\<not> (\<exists>i. occurs_at sep i xs)"
      using n occurs_at_Cons_Suc by blast
    ultimately show "rfind (x # xs) sep = None"
      using Cons by (simp add: startswith_iff)
  qed
qed

lemma rfind_Some:
  "rfind s sep = Some i \<Longrightarrow> occurs_at sep i s \<and> (\<forall>j. occurs_at sep j s \<longrightarrow> j \<le> i)"
proof (induction s arbitrary: i)
  case Nil
  then show ?case by (auto simp: startswith_iff occurs_at_def split: if_splits)
next
  case (Cons x xs)
  show ?case
  proof (cases "rfind xs sep")
    case None
    with Cons.prems have i0: "i = 0" and st: "occurs_at sep 0 (x # xs)"
      by (auto simp: startswith_iff split: if_splits)
    have "\<And>j. occurs_at sep j (x # xs) \<Longrightarrow> j \<le> 0"
    proof -
      fix j assume j: "occurs_at sep j (x # xs)"
      show "j \<le> 0"
      proof (cases j)
        case 0
        then show ?thesis by simp
      next
        case (Suc k)
        with j have "occurs_at sep k xs" by (simp add: occurs_at_Cons_Suc)
        with None rfind_None show ?thesis by blast
      qed
    qed
    with i0 st show ?thesis by blast
  next
    case (Some k)
    with Cons.prems have ik: "i = Suc k" by simp
    from Cons.IH [OF Some] have occ: "occurs_at sep k xs"
      and mx: "\<And>j. occurs_at sep j xs \<Longrightarrow> j \<le> k" by blast+
    have "occurs_at sep (Suc k) (x # xs)" using occ by (simp add: occurs_at_Cons_Suc)
    moreover have "\<And>j. occurs_at sep j (x # xs) \<Longrightarrow> j \<le> Suc k"
    proof -
      fix j assume j: "occurs_at sep j (x # xs)"
      show "j \<le> Suc k"
      proof (cases j)
        case 0
        then show ?thesis by simp
      next
        case (Suc m)
        with j have "occurs_at sep m xs" by (simp add: occurs_at_Cons_Suc)
        then have "m \<le> k" by (rule mx)
        with Suc show ?thesis by simp
      qed
    qed
    ultimately show ?thesis using ik by blast
  qed
qed

text \<open>
  Claim C8. For every string \<open>s\<close>: if \<open>s\<close> contains \<open>"__"\<close>, then
  \<open>shorten_param s\<close> returns exactly the part of \<open>s\<close> after the last occurrence of
  \<open>"__"\<close> (the occurrence at the greatest index \<open>i\<close>, so the part from \<open>i + 2\<close> on);
  otherwise it returns \<open>s\<close> unchanged. In neither case is \<open>IndexError\<close> raised.
\<close>

theorem shorten_param_last_separator:
  "((\<exists>i. occurs_at ''__'' i s) \<longrightarrow>
      (\<exists>i. occurs_at ''__'' i s \<and> (\<forall>j. occurs_at ''__'' j s \<longrightarrow> j \<le> i)
           \<and> shorten_param s = Inr (drop (i + 2) s)))
   \<and> (\<not> (\<exists>i. occurs_at ''__'' i s) \<longrightarrow> shorten_param s = Inr s)"
proof (intro conjI impI)
  assume ex: "\<exists>i. occurs_at ''__'' i s"
  then have c: "str_contains ''__'' s" by (simp add: str_contains_iff)
  from ex rfind_None obtain i where r: "rfind s ''__'' = Some i"
    by (cases "rfind s ''__''") blast+
  from rfind_Some [OF r] have occ: "occurs_at ''__'' i s"
    and mx: "\<forall>j. occurs_at ''__'' j s \<longrightarrow> j \<le> i" by blast+
  have "shorten_param s = Inr (drop (i + 2) s)"
    using c r by (simp add: shorten_param_def rsplit1_def getitem_def)
  with occ mx show "\<exists>i. occurs_at ''__'' i s \<and> (\<forall>j. occurs_at ''__'' j s \<longrightarrow> j \<le> i)
           \<and> shorten_param s = Inr (drop (i + 2) s)" by blast
next
  assume "\<not> (\<exists>i. occurs_at ''__'' i s)"
  then have "\<not> str_contains ''__'' s" by (simp add: str_contains_iff)
  then show "shorten_param s = Inr s" by (simp add: shorten_param_def)
qed

theorem shorten_param_last_separator_witness:
  "(\<exists>i. occurs_at ''__'' i ''param_classifier__max_leaf_nodes'')
   \<and> (\<exists>i. occurs_at ''__'' i ''param_classifier__max_leaf_nodes''
          \<and> (\<forall>j. occurs_at ''__'' j ''param_classifier__max_leaf_nodes'' \<longrightarrow> j \<le> i)
          \<and> shorten_param ''param_classifier__max_leaf_nodes''
              = Inr (drop (i + 2) ''param_classifier__max_leaf_nodes''))
   \<and> \<not> (\<exists>i. occurs_at ''__'' i ''mean_test_score'')
   \<and> shorten_param ''mean_test_score'' = Inr ''mean_test_score''"
proof -
  have h1: "\<exists>i. occurs_at ''__'' i ''param_classifier__max_leaf_nodes''"
    unfolding str_contains_iff [symmetric] by simp
  have h2: "\<not> (\<exists>i. occurs_at ''__'' i ''mean_test_score'')"
    unfolding str_contains_iff [symmetric] by simp
  from h1 shorten_param_last_separator [of "''param_classifier__max_leaf_nodes''"]
  have c1: "\<exists>i. occurs_at ''__'' i ''param_classifier__max_leaf_nodes''
          \<and> (\<forall>j. occurs_at ''__'' j ''param_classifier__max_leaf_nodes'' \<longrightarrow> j \<le> i)
          \<and> shorten_param ''param_classifier__max_leaf_nodes''
              = Inr (drop (i + 2) ''param_classifier__max_leaf_nodes'')"
    by blast
  from h2 shorten_param_last_separator [of "''mean_test_score''"]
  have c2: "shorten_param ''mean_test_score'' = Inr ''mean_test_score''"
    by blast
  from h1 c1 h2 c2 show ?thesis by blast
qed


section \<open>The class \<open>reciprocal_int\<close> of the hyper-parameter search notebook\<close>

text \<open>
  \<^verbatim>\<open>
  class reciprocal_int:
      """Integer valued version of the log-uniform distribution"""
      def __init__(self, a, b):
          self._distribution = reciprocal(a, b)

      def rvs(self, *args, **kwargs):
          """Random variable sample"""
          return self._distribution.rvs(*args, **kwargs).astype(int)
  \<close>
  The library function \<open>reciprocal\<close> is a parameter of the model: it maps the bounds
  \<open>a\<close> and \<open>b\<close> to a frozen distribution, and a frozen distribution is what its \<open>rvs\<close>
  draws as a function of the random state handed to it. The field \<open>_distribution\<close> is
  written \<open>distribution\<close>.

  \<open>astype(int)\<close> converts the 64-bit float to the platform integer, 64 bits wide on the
  Linux runner of the deployment workflow: the value is truncated towards zero when the
  truncation fits into 64 bits; when it does not, the conversion yields a
  platform-dependent 64-bit pattern, the parameter \<open>indefinite\<close>.
\<close>

type_synonym int64 = "64 word"

type_synonym 'r rv_frozen = "'r \<Rightarrow> real"

record 'r reciprocal_int =
  distribution :: "'r rv_frozen"

definition trunc_toward_zero :: "real \<Rightarrow> int" where
  "trunc_toward_zero x = (if 0 \<le> x then \<lfloor>x\<rfloor> else \<lceil>x\<rceil>)"

definition astype_int :: "int64 \<Rightarrow> real \<Rightarrow> int64" where
  "astype_int indefinite x =
     (if - (2 ^ 63) \<le> trunc_toward_zero x \<and> trunc_toward_zero x < 2 ^ 63
      then word_of_int (trunc_toward_zero x)
      else indefinite)"

definition reciprocal_int_init ::
  "(real \<Rightarrow> real \<Rightarrow> 'r rv_frozen) \<Rightarrow> real \<Rightarrow> real \<Rightarrow> 'r reciprocal_int" where
  "reciprocal_int_init reciprocal a b = \<lparr>distribution = reciprocal a b\<rparr>"

definition reciprocal_int_rvs :: "int64 \<Rightarrow> 'r reciprocal_int \<Rightarrow> 'r \<Rightarrow> int64" where
  "reciprocal_int_rvs indefinite self random_state =
     astype_int indefinite (distribution self random_state)"

text \<open>
  What the library documents of \<open>reciprocal\<close>: every sample of the log-uniform
  distribution on \<open>[a, b]\<close> lies in \<open>[a, b]\<close>.
\<close>

definition samples_within :: "(real \<Rightarrow> real \<Rightarrow> 'r rv_frozen) \<Rightarrow> bool" where
  "samples_within reciprocal \<longleftrightarrow>
     (\<forall>a b r. 0 < a \<and> a \<le> b \<longrightarrow> a \<le> reciprocal a b r \<and> reciprocal a b r \<le> b)"

text \<open>
  Four stand-ins for the library, used at concrete inputs only. The first three draw the
  lower end of the range, either end, and the midpoint. The fourth draws what scipy
  computes at the lower end of the range: the sample is
  \<open>exp (log a + u * (log b - log a))\<close> in double precision, \<open>u\<close> uniform in \<open>[0, 1)\<close>,
  and at \<open>u = 0\<close> the double \<open>exp (log 5.0)\<close> is \<open>4.999999999999999\<close>, one unit in the last
  place below \<open>5\<close>, which is \<open>5 - 1 / 2 ^ 50\<close>.
\<close>

definition lower_end :: "real \<Rightarrow> real \<Rightarrow> unit rv_frozen" where
  "lower_end a b = (\<lambda>r. a)"

definition either_end :: "real \<Rightarrow> real \<Rightarrow> bool rv_frozen" where
  "either_end a b = (\<lambda>r. if r then b else a)"

definition midpoint :: "real \<Rightarrow> real \<Rightarrow> unit rv_frozen" where
  "midpoint a b = (\<lambda>r. (a + b) / 2)"

definition exp_log_rounded :: "real \<Rightarrow> real \<Rightarrow> unit rv_frozen" where
  "exp_log_rounded a b = (\<lambda>r. if a = 5 then 5 - 1 / 2 ^ 50 else a)"

lemma sint_astype_int:
  assumes "0 \<le> x" and "x < 2 ^ 63"
  shows "sint (astype_int indefinite x) = \<lfloor>x\<rfloor>"
proof -
  have t: "trunc_toward_zero x = \<lfloor>x\<rfloor>" using assms by (simp add: trunc_toward_zero_def)
  have lo: "- (2 ^ 63) \<le> \<lfloor>x\<rfloor>"
  proof -
    have "(0::int) \<le> \<lfloor>x\<rfloor>" using assms by simp
    moreover have "- (2 ^ 63) \<le> (0::int)" by simp
    ultimately show ?thesis by (rule order_trans [rotated])
  qed
  have hi: "\<lfloor>x\<rfloor> < 2 ^ 63" using assms by (simp add: floor_less_iff)
  have "sint (word_of_int \<lfloor>x\<rfloor> :: int64) = \<lfloor>x\<rfloor>"
    using lo hi by (simp add: sint_sbintrunc' signed_take_bit_int_eq_self)
  then show ?thesis using t lo hi by (simp add: astype_int_def)
qed

lemma samples_within_lower_end: "samples_within lower_end"
  by (simp add: samples_within_def lower_end_def)

lemma floor_below_five: "\<lfloor>5 - 1 / 2 ^ 50 :: real\<rfloor> = 4"
proof (rule floor_unique)
  show "of_int 4 \<le> (5 - 1 / 2 ^ 50 :: real)" by simp
  show "(5 - 1 / 2 ^ 50 :: real) < of_int 4 + 1" by simp
qed

text \<open>
  Claim C9, as stated, for every pair of reals \<open>0 < a \<le> b\<close>: it fails in two ways.
  The sample need not lie in \<open>[a, b]\<close>: between \<open>5\<close> and \<open>6\<close> the library can draw
  \<open>4.999999999999999\<close>, which the conversion truncates to \<open>4\<close>, below \<open>floor 5\<close>. And
  the conversion need not truncate: with \<open>a = 2 ^ 63\<close> and \<open>b = 2 ^ 64\<close> every sample
  is at least \<open>2 ^ 63\<close>, and no 64-bit integer is: whatever pattern the conversion yields
  (here the one of x86-64, \<open>- 2 ^ 63\<close>), the value returned is below \<open>floor a\<close>, even for
  a library whose samples all lie in the range.
\<close>

theorem reciprocal_int_rvs_out_of_range:
  "(0::real) < 5 \<and> (5::real) \<le> 6
   \<and> exp_log_rounded 5 6 () = 5 - 1 / 2 ^ 50
   \<and> sint (reciprocal_int_rvs 0 (reciprocal_int_init exp_log_rounded 5 6) ()) = 4
   \<and> (4::int) < \<lfloor>5::real\<rfloor>
   \<and> samples_within lower_end \<and> (0::real) < 2 ^ 63 \<and> (2::real) ^ 63 \<le> 2 ^ 64
   \<and> sint (reciprocal_int_rvs (- (2 ^ 63)) (reciprocal_int_init lower_end (2 ^ 63) (2 ^ 64)) ())
       < \<lfloor>(2::real) ^ 63\<rfloor>"
proof -
  have x: "exp_log_rounded 5 6 () = 5 - 1 / 2 ^ 50" by (simp add: exp_log_rounded_def)
  have "sint (astype_int 0 (5 - 1 / 2 ^ 50)) = \<lfloor>5 - 1 / 2 ^ 50 :: real\<rfloor>"
  proof (rule sint_astype_int)
    show "(0::real) \<le> 5 - 1 / 2 ^ 50" by simp
    have "(5 - 1 / 2 ^ 50 :: real) < 5" by simp
    also have "(5::real) < 2 ^ 63" by simp
    finally show "(5 - 1 / 2 ^ 50 :: real) < 2 ^ 63" .
  qed
  with floor_below_five
  have four: "sint (reciprocal_int_rvs 0 (reciprocal_int_init exp_log_rounded 5 6) ()) = 4"
    by (simp add: reciprocal_int_rvs_def reciprocal_int_init_def exp_log_rounded_def)
  have big: "sint (reciprocal_int_rvs (- (2 ^ 63))
          (reciprocal_int_init lower_end (2 ^ 63) (2 ^ 64)) ()) < \<lfloor>(2::real) ^ 63\<rfloor>"
  proof -
    have "sint (reciprocal_int_rvs (- (2 ^ 63))
            (reciprocal_int_init lower_end (2 ^ 63) (2 ^ 64)) ()) < 2 ^ 63"
      using sint_lt [where 'a = 64] by simp
    moreover have "\<lfloor>(2::real) ^ 63\<rfloor> = 2 ^ 63"
      by (metis floor_of_int of_int_numeral of_int_power)
    ultimately show ?thesis by simp
  qed
  from x four big samples_within_lower_end show ?thesis by simp
qed

text \<open>
  Claim C9, amended: for every pair of reals \<open>0 < a\<close> and \<open>b < 2 ^ 63\<close> and every sample
  the library draws for them, if the sample lies in \<open>[a, b]\<close> then the value \<open>n\<close>
  returned by \<open>reciprocal_int(a, b).rvs()\<close> is the sample truncated, an integer with
  \<open>floor a \<le> n \<le> floor b\<close>; the result does not depend on what an out-of-range
  conversion would yield. Nothing is assumed of the other samples of the library.
\<close>

theorem reciprocal_int_rvs_in_range:
  assumes "0 < a" and "a \<le> reciprocal a b r" and "reciprocal a b r \<le> b" and "b < 2 ^ 63"
  shows "\<lfloor>a\<rfloor> \<le> sint (reciprocal_int_rvs indefinite (reciprocal_int_init reciprocal a b) r)
       \<and> sint (reciprocal_int_rvs indefinite (reciprocal_int_init reciprocal a b) r) \<le> \<lfloor>b\<rfloor>
       \<and> sint (reciprocal_int_rvs indefinite (reciprocal_int_init reciprocal a b) r)
           = \<lfloor>reciprocal a b r\<rfloor>"
proof -
  let ?x = "reciprocal a b r"
  have "0 \<le> ?x" using assms(1,2) by linarith
  moreover have "?x < 2 ^ 63" using assms(3,4) by linarith
  ultimately have "sint (astype_int indefinite ?x) = \<lfloor>?x\<rfloor>" by (rule sint_astype_int)
  then have "sint (reciprocal_int_rvs indefinite (reciprocal_int_init reciprocal a b) r) = \<lfloor>?x\<rfloor>"
    by (simp add: reciprocal_int_rvs_def reciprocal_int_init_def)
  moreover have "\<lfloor>a\<rfloor> \<le> \<lfloor>?x\<rfloor>" using assms(2) by (rule floor_mono)
  moreover have "\<lfloor>?x\<rfloor> \<le> \<lfloor>b\<rfloor>" using assms(3) by (rule floor_mono)
  ultimately show ?thesis by simp
qed

theorem reciprocal_int_rvs_in_range_witness:
  "(0::real) < 2 \<and> (2::real) \<le> either_end 2 256 True \<and> either_end 2 256 True \<le> (256::real)
   \<and> (256::real) < 2 ^ 63
   \<and> \<lfloor>2::real\<rfloor> \<le> sint (reciprocal_int_rvs 0 (reciprocal_int_init either_end 2 256) True)
   \<and> sint (reciprocal_int_rvs 0 (reciprocal_int_init either_end 2 256) True) \<le> \<lfloor>256::real\<rfloor>"
proof -
  have h1: "(0::real) < 2" by simp
  have h2: "(2::real) \<le> either_end 2 256 True" by (simp add: either_end_def)
  have h3: "either_end 2 256 True \<le> (256::real)" by (simp add: either_end_def)
  have h4: "(256::real) < 2 ^ 63" by simp
  from reciprocal_int_rvs_in_range
    [where reciprocal = either_end and a = 2 and b = 256 and r = True and indefinite = 0,
      OF h1 h2 h3 h4] h2 h3
  show ?thesis by simp
qed


section \<open>Ordinal encoding under cross-validation\<close>

text \<open>
  The solution notebook of the categorical-pipeline exercise and the two
  parameter-tuning notebooks compute
  \<^verbatim>\<open>
  categories = [
      data[column].unique() for column in data[categorical_columns]]
  \<close>
  and build \<open>OrdinalEncoder(categories=categories)\<close>; the solution notebook then runs
  \<^verbatim>\<open>
  model = make_pipeline(
      OrdinalEncoder(categories=categories),
      LogisticRegression(max_iter=1000))
  scores = cross_val_score(model, data_categorical, target)
  \<close>
  A data frame is the list of its columns, a column the list of its values by row.
  \<open>unique\<close> keeps the values of a column in the order of their first appearance.
  Values are compared by equality, as the strings of a categorical column are (a missing
  value that is unequal to itself is not a value of this model).
\<close>

type_synonym 'v frame = "'v list list"

definition unique :: "'v list \<Rightarrow> 'v list" where
  "unique xs = fold (\<lambda>x seen. if x \<in> set seen then seen else seen @ [x]) xs []"

definition categories :: "'v frame \<Rightarrow> 'v list list" where
  "categories data_categorical = map unique data_categorical"

text \<open>
  Modelled from the spec: the encoder, the pipeline and \<open>cross_val_score\<close> are
  third-party library code, not under src/. The spec and the notebooks say of the
  encoder that it raises on a category it does not know; the model gives it the category
  lists it was constructed with, encodes a value as its position in the list of its
  column, and raises \<open>UnknownCategories\<close> with the column's number at a value outside
  that list, when fitting as when transforming. A frame with another number of columns
  than the encoder has lists is a \<open>ShapeMismatch\<close>, a row index outside the frame is
  \<open>OutOfBounds\<close>.
\<close>

datatype sk_error = UnknownCategories nat | ShapeMismatch | OutOfBounds

record 'v ordinal_encoder =
  enc_categories :: "'v list list"

definition OrdinalEncoder :: "'v list list \<Rightarrow> 'v ordinal_encoder" where
  "OrdinalEncoder cats = \<lparr>enc_categories = cats\<rparr>"

fun index_of :: "'v \<Rightarrow> 'v list \<Rightarrow> nat option" where
  "index_of v [] = None"
| "index_of v (c # cs) = (if v = c then Some 0 else map_option Suc (index_of v cs))"

fun encode_column :: "'v list \<Rightarrow> 'v list \<Rightarrow> nat list option" where
  "encode_column cats [] = Some []"
| "encode_column cats (v # vs) =
     (case index_of v cats of
        None \<Rightarrow> None
      | Some k \<Rightarrow> map_option ((#) k) (encode_column cats vs))"

fun encode_columns :: "nat \<Rightarrow> 'v list list \<Rightarrow> 'v frame \<Rightarrow> sk_error + nat frame" where
  "encode_columns j [] [] = Inr []"
| "encode_columns j (cats # rest) (col # cols) =
     (case encode_column cats col of
        None \<Rightarrow> Inl (UnknownCategories j)
      | Some codes \<Rightarrow>
          (case encode_columns (Suc j) rest cols of
             Inl e \<Rightarrow> Inl e
           | Inr others \<Rightarrow> Inr (codes # others)))"
| "encode_columns j [] (col # cols) = Inl ShapeMismatch"
| "encode_columns j (cats # rest) [] = Inl ShapeMismatch"

definition transform :: "'v ordinal_encoder \<Rightarrow> 'v frame \<Rightarrow> sk_error + nat frame" where
  "transform enc X = encode_columns 0 (enc_categories enc) X"

definition fit :: "'v ordinal_encoder \<Rightarrow> 'v frame \<Rightarrow> sk_error + 'v ordinal_encoder" where
  "fit enc X =
     (case encode_columns 0 (enc_categories enc) X of Inl e \<Rightarrow> Inl e | Inr _ \<Rightarrow> Inr enc)"

text \<open>Selecting the rows of a fold, by position.\<close>

definition take_rows :: "nat list \<Rightarrow> 'a list \<Rightarrow> sk_error + 'a list" where
  "take_rows idx col =
     (if \<forall>i \<in> set idx. i < length col then Inr (map ((!) col) idx) else Inl OutOfBounds)"

fun take_frame_rows :: "nat list \<Rightarrow> 'v frame \<Rightarrow> sk_error + 'v frame" where
  "take_frame_rows idx [] = Inr []"
| "take_frame_rows idx (col # cols) =
     (case take_rows idx col of
        Inl e \<Rightarrow> Inl e
      | Inr c \<Rightarrow>
          (case take_frame_rows idx cols of Inl e \<Rightarrow> Inl e | Inr cs \<Rightarrow> Inr (c # cs)))"

text \<open>
  The final estimator of the pipeline is a parameter: what it learns from the encoded
  training fold, and the score it gets on the encoded validation fold.
\<close>

record ('m, 't) classifier =
  clf_fit :: "nat frame \<Rightarrow> 't list \<Rightarrow> 'm"
  clf_score :: "'m \<Rightarrow> nat frame \<Rightarrow> 't list \<Rightarrow> real"

definition bind :: "'e + 'a \<Rightarrow> ('a \<Rightarrow> 'e + 'b) \<Rightarrow> 'e + 'b" where
  "bind x f = (case x of Inl e \<Rightarrow> Inl e | Inr v \<Rightarrow> f v)"

definition fit_and_score ::
  "'v ordinal_encoder \<Rightarrow> ('m, 't) classifier \<Rightarrow> 'v frame \<Rightarrow> 't list \<Rightarrow> nat list \<Rightarrow> nat list
     \<Rightarrow> sk_error + real" where
  "fit_and_score enc clf X y train test =
     bind (take_frame_rows train X) (\<lambda>X_train.
     bind (take_rows train y) (\<lambda>y_train.
     bind (take_frame_rows test X) (\<lambda>X_test.
     bind (take_rows test y) (\<lambda>y_test.
     bind (fit enc X_train) (\<lambda>fitted.
     bind (transform fitted X_train) (\<lambda>Xt.
     bind (transform fitted X_test) (\<lambda>Xv.
       Inr (clf_score clf (clf_fit clf Xt y_train) Xv y_test))))))))"

fun cross_val_score ::
  "'v ordinal_encoder \<Rightarrow> ('m, 't) classifier \<Rightarrow> 'v frame \<Rightarrow> 't list
     \<Rightarrow> (nat list \<times> nat list) list \<Rightarrow> sk_error + real list" where
  "cross_val_score enc clf X y [] = Inr []"
| "cross_val_score enc clf X y ((train, test) # splits) =
     bind (fit_and_score enc clf X y train test) (\<lambda>s.
     bind (cross_val_score enc clf X y splits) (\<lambda>ss. Inr (s # ss)))"

text \<open>A split names rows of the data set: every index of either fold is below \<open>n\<close>.\<close>

definition valid_split :: "nat \<Rightarrow> nat list \<times> nat list \<Rightarrow> bool" where
  "valid_split n sp \<longleftrightarrow> (\<forall>i \<in> set (fst sp). i < n) \<and> (\<forall>i \<in> set (snd sp). i < n)"

definition valid_splits :: "nat \<Rightarrow> (nat list \<times> nat list) list \<Rightarrow> bool" where
  "valid_splits n splits \<longleftrightarrow> (\<forall>sp \<in> set splits. valid_split n sp)"

text \<open>Every column of the frame has \<open>n\<close> rows.\<close>

definition rectangular :: "'v frame \<Rightarrow> nat \<Rightarrow> bool" where
  "rectangular X n \<longleftrightarrow> (\<forall>col \<in> set X. length col = n)"

text \<open>Every value of every fold is a member of the category list of its column.\<close>

definition folds_known :: "'v frame \<Rightarrow> (nat list \<times> nat list) list \<Rightarrow> bool" where
  "folds_known X splits \<longleftrightarrow>
     (\<forall>sp \<in> set splits. \<forall>j < length X. \<forall>i \<in> set (fst sp) \<union> set (snd sp).
        X ! j ! i \<in> set (categories X ! j))"

lemma bind_Inr [simp]: "bind (Inr v) f = f v"
  by (simp add: bind_def)

lemma bind_Inl [simp]: "bind (Inl e) f = Inl e"
  by (simp add: bind_def)

lemma set_fold_unique:
  "set (fold (\<lambda>x seen. if x \<in> set seen then seen else seen @ [x]) xs acc) = set acc \<union> set xs"
  by (induction xs arbitrary: acc) auto

lemma set_unique: "set (unique xs) = set xs"
  by (simp add: unique_def set_fold_unique)

lemma index_of_None: "index_of v cats = None \<longleftrightarrow> v \<notin> set cats"
  by (induction cats) auto

lemma encode_column_known:
  "set col \<subseteq> set cats \<Longrightarrow> \<exists>codes. encode_column cats col = Some codes"
proof (induction col)
  case Nil
  show ?case by simp
next
  case (Cons v vs)
  then have "v \<in> set cats" by simp
  then obtain k where k: "index_of v cats = Some k"
    using index_of_None [of v cats] by (cases "index_of v cats") auto
  from Cons obtain codes where "encode_column cats vs = Some codes" by auto
  with k show ?case by simp
qed

lemma encode_columns_known:
  "list_all2 (\<lambda>cats col. set col \<subseteq> set cats) catss cols
     \<Longrightarrow> \<exists>codes. encode_columns j catss cols = Inr codes"
proof (induction catss cols arbitrary: j rule: list_all2_induct)
  case Nil
  show ?case by simp
next
  case (Cons cats catss col cols)
  from encode_column_known [OF Cons.hyps(1)] obtain c where c: "encode_column cats col = Some c"
    by blast
  from Cons.IH [of "Suc j"] obtain cs where "encode_columns (Suc j) catss cols = Inr cs" by blast
  with c show ?case by simp
qed

lemma take_frame_rows_ok:
  "\<forall>col \<in> set X. length col = n \<Longrightarrow> \<forall>i \<in> set idx. i < n
     \<Longrightarrow> take_frame_rows idx X = Inr (map (\<lambda>col. map ((!) col) idx) X)"
  by (induction X) (auto simp: take_rows_def)

lemma rows_within_categories:
  assumes "\<forall>col \<in> set X. length col = n" and "\<forall>i \<in> set idx. i < n"
  shows "list_all2 (\<lambda>cats col. set col \<subseteq> set cats)
           (categories X) (map (\<lambda>col. map ((!) col) idx) X)"
proof -
  have "\<And>col. col \<in> set X \<Longrightarrow> set (map ((!) col) idx) \<subseteq> set (unique col)"
  proof -
    fix col assume "col \<in> set X"
    with assms have "\<forall>i \<in> set idx. i < length col" by auto
    then show "set (map ((!) col) idx) \<subseteq> set (unique col)"
      by (auto simp: set_unique)
  qed
  then show ?thesis
    by (simp add: categories_def list_all2_map1 list_all2_map2 list_all2_same)
qed

lemma fit_and_score_ok:
  assumes X: "\<forall>col \<in> set X. length col = length y"
    and sp: "valid_split (length y) (train, test)"
  shows "\<exists>s. fit_and_score (OrdinalEncoder (categories X)) clf X y train test = Inr s"
proof -
  let ?sel = "\<lambda>idx. map (\<lambda>col. map ((!) col) idx) X"
  from sp have tr: "\<forall>i \<in> set train. i < length y" and te: "\<forall>i \<in> set test. i < length y"
    by (auto simp: valid_split_def)
  have a: "take_frame_rows train X = Inr (?sel train)" using X tr by (rule take_frame_rows_ok)
  have b: "take_frame_rows test X = Inr (?sel test)" using X te by (rule take_frame_rows_ok)
  have c: "take_rows train y = Inr (map ((!) y) train)" using tr by (simp add: take_rows_def)
  have d: "take_rows test y = Inr (map ((!) y) test)" using te by (simp add: take_rows_def)
  obtain Xt where Xt: "encode_columns 0 (categories X) (?sel train) = Inr Xt"
    using encode_columns_known [OF rows_within_categories [OF X tr]] by blast
  obtain Xv where Xv: "encode_columns 0 (categories X) (?sel test) = Inr Xv"
    using encode_columns_known [OF rows_within_categories [OF X te]] by blast
  show ?thesis
    by (simp add: fit_and_score_def a b c d fit_def transform_def OrdinalEncoder_def Xt Xv)
qed

lemma cross_val_score_ok:
  assumes "\<forall>col \<in> set X. length col = length y"
    and "\<forall>sp \<in> set splits. valid_split (length y) sp"
  shows "\<exists>scores. cross_val_score (OrdinalEncoder (categories X)) clf X y splits = Inr scores
           \<and> length scores = length splits"
  using assms(2)
proof (induction splits)
  case Nil
  show ?case by simp
next
  case (Cons sp splits)
  obtain train test where sp: "sp = (train, test)" by (cases sp)
  from Cons.prems sp have v: "valid_split (length y) (train, test)" by simp
  from fit_and_score_ok [OF assms(1) v]
  obtain s where s: "fit_and_score (OrdinalEncoder (categories X)) clf X y train test = Inr s"
    by blast
  from Cons obtain ss where "cross_val_score (OrdinalEncoder (categories X)) clf X y splits = Inr ss"
    and "length ss = length splits" by auto
  with s sp show ?case by simp
qed

text \<open>
  Claim C10. When the encoder is constructed with the categories computed as the unique
  values of every categorical column over the whole data set, then for every list of
  splits of that data set (each fold a list of row positions of it), and whatever the
  final estimator is: every value of any fold is a member of the category list of its
  column, and \<open>cross_val_score\<close> returns one score per split, so neither fitting on a
  training fold nor transforming a validation fold raises \<open>UnknownCategories\<close>.
\<close>

theorem cross_val_score_no_unknown_category:
  assumes "rectangular X (length y)" and "valid_splits (length y) splits"
  shows "folds_known X splits
       \<and> (\<exists>scores. cross_val_score (OrdinalEncoder (categories X)) clf X y splits = Inr scores
            \<and> length scores = length splits)"
proof
  from assms have X: "\<forall>col \<in> set X. length col = length y"
    and S: "\<forall>sp \<in> set splits. valid_split (length y) sp"
    by (simp_all add: rectangular_def valid_splits_def)
  show "folds_known X splits"
    unfolding folds_known_def
  proof (intro ballI allI impI)
    fix sp j i
    assume sp: "sp \<in> set splits" and j: "j < length X" and i: "i \<in> set (fst sp) \<union> set (snd sp)"
    from S sp i have "i < length y" by (auto simp: valid_split_def)
    moreover from X j have "length (X ! j) = length y" by simp
    ultimately have "X ! j ! i \<in> set (X ! j)" by simp
    then show "X ! j ! i \<in> set (categories X ! j)"
      using j by (simp add: categories_def set_unique)
  qed
  show "\<exists>scores. cross_val_score (OrdinalEncoder (categories X)) clf X y splits = Inr scores
          \<and> length scores = length splits"
    using X S by (rule cross_val_score_ok)
qed

text \<open>
  A data set of three rows and two categorical columns under two splits: the
  categories are \<open>[[x, y], [m, f]]\<close>, and the two scores are those of the estimator.
\<close>

definition three_rows :: "string frame" where
  "three_rows = [[''x'', ''y'', ''x''], [''m'', ''m'', ''f'']]"

definition three_labels :: "bool list" where
  "three_labels = [True, False, True]"

definition two_splits :: "(nat list \<times> nat list) list" where
  "two_splits = [([0, 2], [1]), ([1], [0, 2])]"

definition constant_classifier :: "(unit, bool) classifier" where
  "constant_classifier = \<lparr>clf_fit = (\<lambda>X y. ()), clf_score = (\<lambda>m X y. 1)\<rparr>"

theorem cross_val_score_no_unknown_category_witness:
  "rectangular three_rows (length three_labels)
   \<and> valid_splits (length three_labels) two_splits
   \<and> folds_known three_rows two_splits
   \<and> (\<exists>scores. cross_val_score (OrdinalEncoder (categories three_rows)) constant_classifier
                 three_rows three_labels two_splits = Inr scores
         \<and> length scores = length two_splits)"
proof -
  have h1: "rectangular three_rows (length three_labels)"
    by (simp add: rectangular_def three_rows_def three_labels_def)
  have h2: "valid_splits (length three_labels) two_splits"
    by (simp add: valid_splits_def two_splits_def three_labels_def valid_split_def)
  from cross_val_score_no_unknown_category [OF h1 h2, of constant_classifier] h1 h2
  show ?thesis by blast
qed


section \<open>The notebooks\<close>

text \<open>
  The repository is eight notebooks, the table of contents of the book
  (\<^verbatim>\<open>src/unnamed/part_004\<close>, which holds no code) and a deployment workflow. Five
  of the notebooks come without their file names and are named here after what they
  teach. A notebook is the list of its code cells (markdown cells hold no code), a cell
  the list of its statements. Every
  operation of substance in these cells is a call into pandas, numpy, scikit-learn, scipy,
  matplotlib, seaborn or plotly, so a statement is recorded by the calls it makes:
  \<^item> a simple statement (an assignment, an expression, a \<open>return\<close>) becomes one
    \<open>Simple\<close> with its call expressions in evaluation order (the receiver and the
    arguments of a call before the call itself); a statement without a call is
    \<open>Simple []\<close>;
  \<^item> a call is its receiver as written, with arguments and indices elided (\<open>pd\<close>,
    \<open>model\<close>, \<open>pd.DataFrame()\<close>, \<open>data[]\<close>; empty for a plain function call, \<open>(...)\<close>
    for any other expression), the name called, the positional arguments and the keyword
    arguments by name; an argument is kept when it is a string or an integer literal, and
    is \<open>Other\<close> otherwise;
  \<^item> \<open>import\<close>, \<open>def\<close>, \<open>class\<close>, \<open>for\<close>, \<open>if\<close>, \<open>with\<close> and \<open>try\<close> keep their
    bodies; the iterable of a loop, a condition and a context expression are a
    \<open>Simple\<close> before the compound statement; a list comprehension cuts its statement
    in three: what is evaluated before it, the loop around its element, and the rest;
  \<^item> a cell whose first line is the cell magic \<open>%%time\<close> is the one statement
    \<open>TimeMagic\<close> around the statements of the cell: IPython hands the rest of the cell
    to the magic, which runs it;
  \<^item> comment lines are no statements.
\<close>

datatype arg = Str string | Num int | Other

datatype call =
  Call (receiver: string) (callee: string) (args: "arg list") (kwargs: "(string \<times> arg) list")

datatype stmt =
    Simple "call list"
  | Import string
  | FunctionDef string "stmt list"
  | ClassDef string "stmt list"
  | ForLoop "stmt list"
  | IfElse "stmt list" "stmt list"
  | WithBlock "stmt list"
  | TryExcept "stmt list" "stmt list"
  | TimeMagic "stmt list"

type_synonym cell = "stmt list"
type_synonym notebook = "cell list"

text \<open>
  \<^verbatim>\<open>src/unnamed/part_001\<close>, "First model with scikit-learn".
\<close>

definition numerical_pipeline :: notebook where
  "numerical_pipeline =
    [[Import ''pandas'',
      Simple [Call ''pd'' ''read_csv'' [Str ''../datasets/adult-census.csv''] []]],
     [Simple [Call ''df'' ''head'' [] []]],
     [Simple [],
      Simple [],
      Simple []],
     [Simple [Call ''df'' ''drop'' [] [(''columns'', Other)]],
      Simple [Call ''data'' ''head'' [] []]],
     [Simple []],
     [Simple []],
     [Import ''sklearn.compose'',
      Simple [Call '''' ''selector'' [] [(''dtype_exclude'', Other)]],
      Simple [Call '''' ''numerical_columns_selector'' [Other] []],
      Simple []],
     [Simple [],
      Simple [Call ''data_numeric'' ''head'' [] []]],
     [Import ''sklearn.model_selection'',
      Simple [Call '''' ''train_test_split'' [Other, Other] [(''random_state'', Num 42)]]],
     [Simple [Call '''' ''print'' [Other] []]],
     [Simple [Call '''' ''print'' [Other] []]],
     [Import ''sklearn.linear_model'',
      Import ''time'',
      Simple [Call '''' ''LogisticRegression'' [] []],
      Simple [Call ''time'' ''time'' [] []],
      Simple [Call ''model'' ''fit'' [Other, Other] []],
      Simple [Call ''time'' ''time'' [] []],
      Simple [Call '''' ''print'' [Other] []]],
     [Simple [Call ''model'' ''predict'' [Other] []],
      Simple []],
     [Simple []],
     [Simple [Call ''data_test'' ''copy'' [] []],
      Simple [],
      Simple [],
      Simple [],
      Simple [Call ''predictions'' ''head'' [] []]],
     [Simple [Call ''model'' ''score'' [Other, Other] [],
              Call '''' ''print'' [Other] []]],
     [Simple [Call ''(...)'' ''mean'' [] []]]]"

text \<open>
  \<^verbatim>\<open>src/unnamed/part_000\<close>, its first notebook, "Exercise 01": the last code cell holds
  four imports and the comment \<open># TODO: write me!\<close>.
\<close>

definition categorical_pipeline_ex_01 :: notebook where
  "categorical_pipeline_ex_01 =
    [[Import ''pandas'',
      Simple [Call ''pd'' ''read_csv'' [Str ''../datasets/adult-census.csv''] []]],
     [Simple [],
      Simple [],
      Simple [Call ''df'' ''drop'' [] [(''columns'', Other)]]],
     [Import ''sklearn.compose'',
      Simple [Call '''' ''selector'' [] [(''dtype_include'', Other)]],
      Simple [Call '''' ''categorical_columns_selector'' [Other] []],
      Simple []],
     [Import ''sklearn.model_selection'',
      Import ''sklearn.pipeline'',
      Import ''sklearn.preprocessing'',
      Import ''sklearn.linear_model'']]"

text \<open>
  \<^verbatim>\<open>src/unnamed/part_000\<close>, its second notebook, "Solution for Exercise 01".
\<close>

definition categorical_pipeline_sol_01 :: notebook where
  "categorical_pipeline_sol_01 =
    [[Import ''pandas'',
      Simple [Call ''pd'' ''read_csv'' [Str ''../datasets/adult-census.csv''] []]],
     [Simple [],
      Simple [],
      Simple [Call ''df'' ''drop'' [] [(''columns'', Other)]]],
     [Import ''sklearn.compose'',
      Simple [Call '''' ''selector'' [] [(''dtype_include'', Other)]],
      Simple [Call '''' ''categorical_columns_selector'' [Other] []],
      Simple []],
     [Simple [],
      ForLoop
        [Simple [Call ''data[]'' ''unique'' [] []]],
      Simple [],
      Simple []],
     [Import ''sklearn.model_selection'',
      Import ''sklearn.pipeline'',
      Import ''sklearn.preprocessing'',
      Import ''sklearn.linear_model'',
      Simple [Call '''' ''OrdinalEncoder'' [] [(''categories'', Other)],
              Call '''' ''LogisticRegression'' [] [(''max_iter'', Num 1000)],
              Call '''' ''make_pipeline'' [Other, Other] []],
      Simple [Call '''' ''cross_val_score'' [Other, Other, Other] []],
      Simple [Call '''' ''print'' [Other] []]],
     [Simple [Call ''scores'' ''mean'' [] [],
              Call ''scores'' ''std'' [] [],
              Call '''' ''print'' [Other] []]],
     [Import ''sklearn.dummy'',
      Simple [Call '''' ''DummyClassifier'' [] [(''strategy'', Str ''most_frequent'')],
              Call '''' ''cross_val_score'' [Other, Other, Other] []],
      Simple [Call '''' ''print'' [Other] []],
      Simple [Call ''scores'' ''mean'' [] [],
              Call ''scores'' ''std'' [] [],
              Call '''' ''print'' [Other] []]],
     [Import ''sklearn.preprocessing'',
      Simple [Call '''' ''OneHotEncoder'' [] [(''handle_unknown'', Str ''ignore'')],
              Call '''' ''LogisticRegression'' [] [(''max_iter'', Num 1000)],
              Call '''' ''make_pipeline'' [Other, Other] []],
      Simple [Call '''' ''cross_val_score'' [Other, Other, Other] []],
      Simple [Call '''' ''print'' [Other] []],
      Simple [Call ''scores'' ''mean'' [] [],
              Call ''scores'' ''std'' [] [],
              Call '''' ''print'' [Other] []]]]"

text \<open>
  \<^verbatim>\<open>src/unnamed/part_003\<close>, "Using numerical and categorical variables together"; its
  first code cell is empty, and the cell that fits the model on the training set starts
  with \<open>%%time\<close>.
\<close>

definition categorical_pipeline_column_transformer :: notebook where
  "categorical_pipeline_column_transformer =
    [[],
     [Import ''pandas'',
      Simple [Call ''pd'' ''read_csv'' [Str ''../datasets/adult-census.csv''] []],
      Simple [],
      Simple [],
      Simple [Call ''df'' ''drop'' [] [(''columns'', Other)]]],
     [Import ''sklearn.compose'',
      Simple [Call '''' ''selector'' [] [(''dtype_exclude'', Other)]],
      Simple [Call '''' ''selector'' [] [(''dtype_include'', Other)]],
      Simple [Call '''' ''numerical_columns_selector'' [Other] []],
      Simple [Call '''' ''categorical_columns_selector'' [Other] []]],
     [Simple [],
      Simple [],
      ForLoop
        [Simple []],
      Simple []],
     [Import ''sklearn.preprocessing'',
      Import ''sklearn.preprocessing'',
      Import ''sklearn.preprocessing'',
      Import ''sklearn.compose'',
      Import ''sklearn.linear_model'',
      Import ''sklearn.pipeline'',
      Simple [Call '''' ''OrdinalEncoder'' [] [],
              Call '''' ''OneHotEncoder'' [] [(''handle_unknown'', Str ''ignore'')],
              Call '''' ''StandardScaler'' [] [],
              Call '''' ''ColumnTransformer'' [Other] []]],
     [Simple [Call '''' ''LogisticRegression'' [] [(''max_iter'', Num 1000)],
              Call '''' ''make_pipeline'' [Other, Other] []]],
     [Import ''sklearn'',
      Simple [Call '''' ''config_context'' [] [(''display'', Str ''diagram'')]],
      WithBlock
        [Simple []]],
     [Import ''sklearn.model_selection'',
      Simple [Call '''' ''train_test_split'' [Other, Other] [(''random_state'', Num 42)]]],
     [Simple [Call ''model'' ''fit'' [Other, Other] []]],
     [Simple [Call ''data_test'' ''head'' [] []]],
     [Simple [Call ''model'' ''predict'' [Other] []]],
     [Simple []],
     [Simple [Call ''model'' ''score'' [Other, Other] []]],
     [Import ''sklearn.model_selection'',
      Simple [Call '''' ''cross_val_score'' [Other, Other, Other] [(''cv'', Num 5)]],
      Simple []],
     [Simple [Call ''scores'' ''mean'' [] [],
              Call ''scores'' ''std'' [] [],
              Call '''' ''print'' [Other] []]],
     [Import ''sklearn.experimental'',
      Import ''sklearn.ensemble'',
      Simple [],
      ForLoop
        [Simple [Call ''data[]'' ''unique'' [] []]],
      Simple [],
      Simple [Call '''' ''OrdinalEncoder'' [] [(''categories'', Other)],
              Call '''' ''ColumnTransformer'' [Other] [(''remainder'', Str ''passthrough'')]],
      Simple [Call '''' ''HistGradientBoostingClassifier'' [] [],
              Call '''' ''make_pipeline'' [Other, Other] []]],
     [TimeMagic
        [Simple [Call ''model'' ''fit'' [Other, Other] []]]],
     [Simple [Call ''model'' ''score'' [Other, Other] []]]]"

text \<open>
  \<^verbatim>\<open>src/unnamed/part_002\<close>, "Introduction to hyper-parameter tuning"; the cell that
  builds and fits the first model starts with \<open>%%time\<close>.
\<close>

definition parameter_tuning :: notebook where
  "parameter_tuning =
    [[Import ''pandas'',
      Simple [Call ''pd'' ''read_csv'' [Str ''../datasets/adult-census.csv''] []]],
     [Simple [],
      Simple [],
      Simple []],
     [Simple [Call ''df'' ''drop'' [] [(''columns'', Other)]],
      Simple [Call ''data'' ''head'' [] []]],
     [Import ''sklearn.model_selection'',
      Simple [Call '''' ''train_test_split'' [Other, Other] [(''random_state'', Num 42)]]],
     [Import ''sklearn.compose'',
      Import ''sklearn.compose'',
      Import ''sklearn.preprocessing'',
      Simple [Call '''' ''selector'' [] [(''dtype_include'', Other)]],
      Simple [Call '''' ''categorical_columns_selector'' [Other] []],
      Simple [],
      ForLoop
        [Simple [Call ''data[]'' ''unique'' [] []]],
      Simple [],
      Simple [Call '''' ''OrdinalEncoder'' [] [(''categories'', Other)]],
      Simple [Call '''' ''ColumnTransformer'' [Other]
                  [(''remainder'', Str ''passthrough''), (''sparse_threshold'', Num 0)]]],
     [TimeMagic
        [Import ''sklearn.experimental'',
         Import ''sklearn.ensemble'',
         Import ''sklearn.pipeline'',
         Simple [Call '''' ''HistGradientBoostingClassifier'' [] [(''random_state'', Num 42)],
                 Call '''' ''Pipeline'' [Other] []],
         Simple [Call ''model'' ''fit'' [Other, Other] []],
         Simple [Call ''model'' ''score'' [Other, Other] [],
                 Call '''' ''print'' [Other] []]]],
     [Simple [Call '''' ''HistGradientBoostingClassifier'' []
                  [(''random_state'', Num 42), (''learning_rate'', Other)],
              Call '''' ''Pipeline'' [Other] []],
      Simple [Call ''model'' ''fit'' [Other, Other] []],
      Simple [Call ''model'' ''score'' [Other, Other] [],
              Call '''' ''print'' [Other] []]],
     [Simple [Call '''' ''HistGradientBoostingClassifier'' []
                  [(''random_state'', Num 42), (''learning_rate'', Num 10)],
              Call '''' ''Pipeline'' [Other] []],
      Simple [Call ''model'' ''fit'' [Other, Other] []],
      Simple [Call ''model'' ''score'' [Other, Other] [],
              Call '''' ''print'' [Other] []]],
     [Simple [Call ''model'' ''set_params'' [] [(''classifier__learning_rate'', Other)]],
      Simple [Call ''model'' ''fit'' [Other, Other] []],
      Simple [Call ''model'' ''score'' [Other, Other] [],
              Call '''' ''print'' [Other] []]],
     [Simple [Call ''model'' ''get_params'' [] []],
      ForLoop
        [Simple [Call '''' ''print'' [Other] []]]],
     [Simple [Call ''model'' ''get_params'' [] []]]]"

text \<open>
  \<^verbatim>\<open>src/notebooks/04_parameter_tuning_search.ipynb\<close>. Two cells start with
  \<open>%%time\<close>: the fit of the pipeline and the grid search. The cell that would rerun the
  randomized search and save its results with \<open>to_csv\<close> is commented out line by line, so
  it is empty.
\<close>

definition parameter_tuning_search :: notebook where
  "parameter_tuning_search =
    [[Import ''pandas'',
      Simple [Call ''pd'' ''read_csv'' [Str ''../datasets/adult-census.csv''] []]],
     [Simple [],
      Simple [],
      Simple []],
     [Simple [Call ''df'' ''drop'' [] [(''columns'', Other)]],
      Simple [Call ''data'' ''head'' [] []]],
     [Import ''sklearn.model_selection'',
      Simple [Call '''' ''train_test_split'' [Other, Other] [(''random_state'', Num 42)]]],
     [Import ''sklearn.compose'',
      Import ''sklearn.compose'',
      Import ''sklearn.preprocessing'',
      Simple [Call '''' ''selector'' [] [(''dtype_include'', Other)]],
      Simple [Call '''' ''categorical_columns_selector'' [Other] []],
      Simple [],
      ForLoop
        [Simple [Call ''data[]'' ''unique'' [] []]],
      Simple [],
      Simple [Call '''' ''OrdinalEncoder'' [] [(''categories'', Other)]],
      Simple [Call '''' ''ColumnTransformer'' [Other]
                  [(''remainder'', Str ''passthrough''), (''sparse_threshold'', Num 0)]]],
     [TimeMagic
        [Import ''sklearn.experimental'',
         Import ''sklearn.ensemble'',
         Import ''sklearn.pipeline'',
         Simple [Call '''' ''HistGradientBoostingClassifier'' []
                     [(''random_state'', Num 42), (''max_leaf_nodes'', Num 4)],
                 Call '''' ''Pipeline'' [Other] []],
         Simple [Call ''model'' ''fit'' [Other, Other] []]]],
     [TimeMagic
        [Import ''numpy'',
         Import ''sklearn.model_selection'',
         Simple [],
         Simple [Call '''' ''GridSearchCV'' [Other]
                     [(''param_grid'', Other), (''n_jobs'', Num 4), (''cv'', Num 2)]],
         Simple [Call ''model_grid_search'' ''fit'' [Other, Other] []],
         Simple [Call ''model_grid_search'' ''score'' [Other, Other] [],
                 Call '''' ''print'' [Other] []]]],
     [Simple [Call ''model_grid_search'' ''predict'' [Other] []]],
     [Simple [Call '''' ''print'' [Other] []]],
     [Simple [Call ''pd'' ''DataFrame'' [Other] [],
              Call ''pd.DataFrame()'' ''sort_values'' [Str ''mean_test_score'']
                  [(''ascending'', Other)]],
      Simple [Call ''cv_results'' ''head'' [] []]],
     [Simple [Call ''param_grid'' ''keys'' [] []],
      ForLoop
        [Simple []],
      Simple [],
      Simple [],
      Simple []],
     [FunctionDef ''shorten_param''
        [Simple [],
         IfElse
           [Simple [Call ''param_name'' ''rsplit'' [Str ''__'', Num 1] []]]
           [],
         Simple []],
      Simple [Call ''cv_results'' ''rename'' [Other] [(''axis'', Num 1)]],
      Simple []],
     [Simple [Call ''cv_results'' ''pivot_table'' [] [(''values'', Str ''mean_test_score''),
                  (''index'', Other), (''columns'', Other)]],
      Simple []],
     [Import ''matplotlib.pyplot'',
      Import ''seaborn'',
      Simple [Call '''' ''heatmap'' [Other] [(''annot'', Other), (''cmap'', Str ''YlGnBu''),
                  (''vmin'', Other), (''vmax'', Other)]],
      Simple [Call ''ax'' ''invert_yaxis'' [] []]],
     [Import ''scipy.stats'',
      Import ''sklearn.model_selection'',
      Import ''pprint'',
      ClassDef ''reciprocal_int''
        [Simple [],
         FunctionDef ''__init__''
           [Simple [Call '''' ''reciprocal'' [Other, Other] []]],
         FunctionDef ''rvs''
           [Simple [],
            Simple [Call ''self._distribution'' ''rvs'' [Other] [(''**'', Other)],
                    Call ''self._distribution.rvs()'' ''astype'' [Other] []]]],
      Simple [Call '''' ''reciprocal'' [Other, Other] [],
              Call '''' ''reciprocal'' [Other, Num 10] [],
              Call '''' ''reciprocal_int'' [Num 2, Num 256] [],
              Call '''' ''reciprocal_int'' [Num 1, Num 100] [],
              Call '''' ''reciprocal_int'' [Num 2, Num 255] []],
      Simple [Call '''' ''RandomizedSearchCV'' [Other] [(''param_distributions'', Other),
                  (''n_iter'', Num 10), (''n_jobs'', Num 4), (''cv'', Num 5)]],
      Simple [Call ''model_random_search'' ''fit'' [Other, Other] []],
      Simple [Call ''model_random_search'' ''score'' [Other, Other] [],
              Call '''' ''print'' [Other] []]],
     [Simple [Call '''' ''print'' [Str ''The best parameters are:''] []],
      Simple [Call '''' ''pprint'' [Other] []]],
     [Simple [Call ''param_distributions'' ''keys'' [] []],
      ForLoop
        [Simple []],
      Simple [],
      Simple [],
      Simple [Call ''pd'' ''DataFrame'' [Other] []],
      Simple [Call ''cv_results[]'' ''sort_values'' [Str ''mean_test_score'']
                  [(''ascending'', Other)]],
      Simple [Call ''cv_results'' ''rename'' [Other] [(''axis'', Num 1)]],
      Simple []],
     [],
     [Simple [Call ''pd'' ''read_csv'' [Str ''../figures/randomized_search_results.csv'']
                  [(''index_col'', Num 0)]]],
     [Simple [Call ''cv_results[]'' ''rename'' [Other] [(''axis'', Num 1)],
              Call ''cv_results[].rename()'' ''sort_values'' [Str ''mean_test_score''] []]],
     [Import ''plotly.express'',
      Simple [Call ''cv_results'' ''rename'' [Other] [(''axis'', Num 1)],
              Call ''cv_results.rename()'' ''apply'' [Other] [],
              Call ''px'' ''parallel_coordinates'' [Other]
                  [(''color'', Str ''mean_test_score''), (''color_continuous_scale'', Other)]],
      Simple [Call ''fig'' ''show'' [] []]]]"

text \<open>
  \<^verbatim>\<open>src/notebooks/trees.ipynb\<close>.
\<close>

definition trees :: notebook where
  "trees =
    [[Import ''pandas'',
      Simple [Call ''pd'' ''read_csv'' [Str ''../datasets/penguins.csv''] []],
      Simple [],
      Simple [],
      Simple [],
      Simple [Call ''data[].str'' ''split'' [] []]],
     [Simple [Call ''data'' ''info'' [] []]],
     [Simple [Call ''data'' ''dropna'' [] []],
      Simple [Call ''data'' ''info'' [] []]],
     [Import ''sklearn.model_selection'',
      Simple [],
      Simple [Call '''' ''train_test_split'' [Other, Other]
                  [(''stratify'', Other), (''random_state'', Num 0)]]],
     [Import ''seaborn'',
      Simple [Call ''sns'' ''pairplot'' [] [(''data'', Other), (''hue'', Str ''Species'')]]],
     [Import ''numpy'',
      Import ''matplotlib.pyplot'',
      FunctionDef ''plot_decision_function''
        [Simple [],
         Import ''sklearn.preprocessing'',
         Simple [Call ''clf'' ''fit'' [Other, Other] []],
         Simple [],
         Simple [Call ''X.iloc[]'' ''min'' [] [],
                 Call ''X.iloc[]'' ''max'' [] []],
         Simple [Call ''X.iloc[]'' ''min'' [] [],
                 Call ''X.iloc[]'' ''max'' [] []],
         Simple [Call ''np'' ''arange'' [Other, Other, Other] [],
                 Call ''np'' ''arange'' [Other, Other, Other] [],
                 Call ''np'' ''meshgrid'' [Other, Other] []],
         Simple [Call ''xx'' ''ravel'' [] [],
                 Call ''yy'' ''ravel'' [] [],
                 Call ''clf'' ''predict'' [Other] []],
         Simple [Call '''' ''LabelEncoder'' [] [],
                 Call ''LabelEncoder()'' ''fit_transform'' [Other] []],
         Simple [Call ''Z'' ''reshape'' [Other] []],
         Simple [],
         IfElse
           [Simple [Call ''plt'' ''subplots'' [] []]]
           [],
         Simple [Call ''ax'' ''contourf'' [Other, Other, Other] [(''alpha'', Other)]],
         Simple [Call ''pd'' ''concat'' [Other] [(''axis'', Num 1)],
                 Call ''sns'' ''scatterplot'' [] [(''data'', Other), (''x'', Other),
                     (''y'', Other), (''hue'', Other), (''ax'', Other)]]]],
     [Import ''sklearn.linear_model'',
      Simple [Call '''' ''LogisticRegression'' [] []],
      Simple [Call '''' ''plot_decision_function'' [Other, Other, Other] []]],
     [Simple [Call ''linear_model'' ''fit'' [Other, Other] [],
              Call ''linear_model.fit()'' ''score'' [Other, Other] [],
              Call '''' ''print'' [Other] []]],
     [Import ''sklearn.tree'',
      Simple [Call '''' ''DecisionTreeClassifier'' [] [(''max_depth'', Num 1)]],
      Simple [Call '''' ''plot_decision_function'' [Other, Other, Other] []]],
     [Import ''sklearn.tree'',
      Simple [Call ''plt'' ''subplots'' [] [(''figsize'', Other)]],
      Simple [Call '''' ''plot_tree'' [Other] [(''ax'', Other)]]],
     [Simple [Call ''tree'' ''predict'' [Other] []]],
     [Simple [Call ''tree'' ''predict'' [Other] []]],
     [Simple [Call ''tree'' ''predict_proba'' [Other] []]],
     [Simple [Call '''' ''print'' [Other] []]],
     [Simple [Call ''tree'' ''predict_proba'' [Other] []]],
     [Simple [Call ''tree'' ''fit'' [Other, Other] [],
              Call ''tree.fit()'' ''score'' [Other, Other] [],
              Call '''' ''print'' [Other] []]],
     [Simple [Call '''' ''DecisionTreeClassifier'' [] [(''max_depth'', Num 2)]],
      Simple [Call '''' ''plot_decision_function'' [Other, Other, Other] []]],
     [Simple [Call ''tree'' ''fit'' [Other, Other] [],
              Call ''tree.fit()'' ''score'' [Other, Other] [],
              Call '''' ''print'' [Other] []]],
     [Simple [Call ''pd'' ''read_csv'' [Str ''../datasets/penguins.csv''] []],
      Simple [],
      Simple [],
      Simple [],
      Simple [Call ''data'' ''dropna'' [] []],
      Simple [],
      Simple [Call '''' ''train_test_split'' [Other, Other] [(''random_state'', Num 0)]]],
     [Simple [Call ''sns'' ''scatterplot'' [] [(''data'', Other),
                  (''x'', Str ''Flipper Length (mm)''), (''y'', Str ''Body Mass (g)'')]]],
     [Import ''sklearn.linear_model'',
      Simple [Call '''' ''LinearRegression'' [] []]],
     [FunctionDef ''plot_regression_model''
        [Simple [],
         Simple [Call ''model'' ''fit'' [Other, Other] []],
         Simple [Call ''pd'' ''concat'' [Other] [(''axis'', Num 1)]],
         Simple [],
         IfElse
           [Simple [Call ''plt'' ''subplots'' [] []]]
           [],
         Simple [Call ''sns'' ''scatterplot'' [] [(''data'', Other),
                     (''x'', Str ''Flipper Length (mm)''), (''y'', Str ''Body Mass (g)''),
                     (''ax'', Other), (''color'', Str ''black''), (''alpha'', Other)]],
         Simple [],
         Simple [Call ''X'' ''min'' [] [],
                 Call ''X'' ''max'' [] [],
                 Call ''np'' ''linspace'' [Other, Other] [(''num'', Num 100)],
                 Call ''np.linspace()'' ''reshape'' [Num (- 1), Num 1] []],
         Simple [Call ''model'' ''predict'' [Other] []],
         Simple [Call ''ax'' ''plot'' [Other, Other] [(''label'', Other), (''linewidth'', Num 3)]],
         Simple [Call ''plt'' ''legend'' [] []],
         Simple []]],
     [Simple [Call '''' ''plot_regression_model'' [Other, Other, Other] []]],
     [Simple [],
      Simple [Call '''' ''plot_regression_model'' [Other, Other, Other] []],
      Simple [Call ''linear_model'' ''predict'' [Other] []],
      Simple [Call ''ax'' ''plot'' [Other, Other] [(''label'', Str ''Test predictions''),
                  (''color'', Str ''tab:green''), (''marker'', Str ''^''), (''markersize'', Num 10),
                  (''linestyle'', Str '''')]],
      Simple [Call ''plt'' ''legend'' [] []]],
     [Import ''sklearn.tree'',
      Simple [Call '''' ''DecisionTreeRegressor'' [] [(''max_depth'', Num 1)]]],
     [Simple [Call '''' ''plot_regression_model'' [Other, Other, Other] []]],
     [Simple [Call '''' ''plot_tree'' [Other] []]],
     [Simple [Call '''' ''DecisionTreeRegressor'' [] [(''max_depth'', Num 3)]],
      Simple [Call '''' ''plot_regression_model'' [Other, Other, Other] []]],
     [Simple [Call '''' ''plot_regression_model'' [Other, Other, Other] [(''extrapolate'', Other)]]],
     [Simple [Call '''' ''plot_regression_model'' [Other, Other, Other] [(''extrapolate'', Other)]],
      Simple [Call '''' ''plot_regression_model'' [Other, Other, Other]
                  [(''extrapolate'', Other), (''ax'', Other)]]],
     [Simple [Call ''pd'' ''read_csv'' [Str ''../datasets/penguins.csv''] []]],
     [Simple [],
      Simple [],
      Simple [],
      Simple [Call ''data_clf[].str'' ''split'' [] []],
      Simple [Call ''data_clf'' ''dropna'' [] []],
      Simple [],
      Simple [Call '''' ''train_test_split'' [Other, Other]
                  [(''stratify'', Other), (''random_state'', Num 0)]]],
     [Simple [],
      Simple [],
      Simple [],
      Simple [Call ''data_reg'' ''dropna'' [] []],
      Simple [],
      Simple [Call '''' ''train_test_split'' [Other, Other] [(''random_state'', Num 0)]]],
     [Simple [Call ''plt'' ''subplots'' [] [(''ncols'', Num 2), (''figsize'', Other)]],
      Simple [Call ''sns'' ''scatterplot'' [] [(''data'', Other),
                  (''x'', Str ''Culmen Length (mm)''), (''y'', Str ''Culmen Depth (mm)''),
                  (''hue'', Str ''Species''), (''ax'', Other)]],
      Simple [Call ''axs[]'' ''set_title'' [Str ''Classification dataset''] []],
      Simple [Call ''sns'' ''scatterplot'' [] [(''data'', Other),
                  (''x'', Str ''Flipper Length (mm)''), (''y'', Str ''Body Mass (g)''),
                  (''ax'', Other)]],
      Simple [Call ''axs[]'' ''set_title'' [Str ''Regression dataset''] []]],
     [Simple [],
      Simple [Call '''' ''DecisionTreeClassifier'' [] [(''max_depth'', Other)]],
      Simple [Call '''' ''DecisionTreeRegressor'' [] [(''max_depth'', Other)]],
      Simple [Call ''plt'' ''subplots'' [] [(''ncols'', Num 2), (''figsize'', Other)]],
      Simple [Call '''' ''plot_decision_function'' [Other, Other, Other] [(''ax'', Other)]],
      Simple [Call '''' ''plot_regression_model'' [Other, Other, Other] [(''ax'', Other)]],
      Simple [Call ''fig'' ''suptitle'' [Other] []]],
     [Simple [],
      Simple [Call '''' ''DecisionTreeClassifier'' [] [(''max_depth'', Other)]],
      Simple [Call '''' ''DecisionTreeRegressor'' [] [(''max_depth'', Other)]],
      Simple [Call ''plt'' ''subplots'' [] [(''ncols'', Num 2), (''figsize'', Other)]],
      Simple [Call '''' ''plot_decision_function'' [Other, Other, Other] [(''ax'', Other)]],
      Simple [Call '''' ''plot_regression_model'' [Other, Other, Other] [(''ax'', Other)]],
      Simple [Call ''fig'' ''suptitle'' [Other] []]],
     [Import ''sklearn.model_selection'',
      Simple [Call ''np'' ''arange'' [Num 2, Num 10, Num 1] []],
      Simple [Call '''' ''DecisionTreeClassifier'' [] [],
              Call '''' ''GridSearchCV'' [Other] [(''param_grid'', Other)]],
      Simple [Call '''' ''DecisionTreeRegressor'' [] [],
              Call '''' ''GridSearchCV'' [Other] [(''param_grid'', Other)]]],
     [Simple [Call ''plt'' ''subplots'' [] [(''ncols'', Num 2), (''figsize'', Other)]],
      Simple [Call '''' ''plot_decision_function'' [Other, Other, Other] [(''ax'', Other)]],
      Simple [Call ''axs[]'' ''set_title'' [Other] []],
      Simple [Call '''' ''plot_regression_model'' [Other, Other, Other] [(''ax'', Other)]],
      Simple [Call ''axs[]'' ''set_title'' [Other] []]]]"

text \<open>
  \<^verbatim>\<open>src/notebooks/feature_selection.ipynb\<close>.
\<close>

definition feature_selection :: notebook where
  "feature_selection =
    [[Import ''sklearn.datasets'',
      Simple [Call '''' ''make_classification'' [] [(''n_samples'', Num 5000),
                  (''n_features'', Num 100), (''n_informative'', Num 2), (''n_redundant'', Num 0),
                  (''n_repeated'', Num 0), (''random_state'', Num 0)]]],
     [Import ''sklearn.ensemble'',
      Import ''sklearn.feature_selection'',
      Import ''sklearn.feature_selection'',
      Import ''sklearn.pipeline'',
      Simple [Call '''' ''RandomForestClassifier'' [] [(''n_jobs'', Num (- 1))]],
      Simple [Call '''' ''SelectKBest'' [] [(''score_func'', Other), (''k'', Num 2)],
              Call '''' ''RandomForestClassifier'' [] [(''n_jobs'', Num (- 1))],
              Call '''' ''make_pipeline'' [Other, Other] []]],
     [Import ''pandas'',
      Import ''sklearn.model_selection'',
      Simple [Call '''' ''cross_validate'' [Other, Other, Other] [],
              Call ''pd'' ''DataFrame'' [Other] []],
      Simple [Call '''' ''cross_validate'' [Other, Other, Other] [(''return_estimator'', Other)],
              Call ''pd'' ''DataFrame'' [Other] []]],
     [Simple [Call ''pd'' ''concat'' [Other] [(''axis'', Num 1), (''keys'', Other)],
              Call ''pd.concat()'' ''swaplevel'' [] [(''axis'', Str ''columns'')]]],
     [Import ''matplotlib.pyplot'',
      Simple [Call ''cv_results[].plot'' ''box'' [] [(''vert'', Other), (''whis'', Num 100)]],
      Simple [Call ''plt'' ''xlabel'' [Str ''Elapsed time (s)''] []],
      Simple [Call ''plt'' ''title'' [Str ''Time to fit the model''] []]],
     [Simple [Call ''cv_results[].plot'' ''box'' [] [(''vert'', Other), (''whis'', Num 100)]],
      Simple [Call ''plt'' ''xlabel'' [Str ''Elapsed time (s)''] []],
      Simple [Call ''plt'' ''title'' [Str ''Time to make prediction''] []]],
     [Simple [Call ''cv_results[].plot'' ''box'' [] [(''vert'', Other), (''whis'', Num 100)]],
      Simple [Call ''plt'' ''xlabel'' [Str ''Accuracy score''] []],
      Simple [Call ''plt'' ''title'' [Str ''Test score via cross-validation''] []]],
     [Import ''numpy'',
      Simple [Call '''' ''enumerate'' [Other] []],
      ForLoop
        [Simple [Call ''np'' ''argsort'' [Other] [],
                 Call '''' ''print'' [Other] []]]],
     [Simple [Call ''np.random'' ''RandomState'' [Num 42] []],
      Simple [Call ''rng'' ''randn'' [Num 100, Num 100000] [],
              Call ''rng'' ''randint'' [Num 0, Num 2] [(''size'', Num 100)]]],
     [Import ''sklearn.model_selection'',
      Import ''sklearn.linear_model'',
      Simple [Call '''' ''LogisticRegression'' [] []],
      Simple [Call '''' ''cross_val_score'' [Other, Other, Other] [(''n_jobs'', Num (- 1))]],
      Simple [Call ''test_score'' ''mean'' [] [],
              Call '''' ''print'' [Other] []]],
     [Import ''sklearn.model_selection'',
      Simple [Call '''' ''SelectKBest'' [] [(''score_func'', Other), (''k'', Num 10)]],
      Simple [Call ''feature_selector'' ''fit_transform'' [Other, Other] [],
              Call '''' ''cross_val_score'' [Other, Other, Other] []],
      Simple [Call ''test_score'' ''mean'' [] [],
              Call '''' ''print'' [Other] []]],
     [Simple [Call '''' ''LogisticRegression'' [] [],
              Call '''' ''make_pipeline'' [Other, Other] []],
      Simple [Call '''' ''cross_val_score'' [Other, Other, Other] []],
      Simple [Call ''test_score'' ''mean'' [] [],
              Call '''' ''print'' [Other] []]],
     [Simple [Call '''' ''make_classification'' [] [(''n_samples'', Num 5000),
                  (''n_features'', Num 100), (''n_informative'', Num 2), (''n_redundant'', Num 5),
                  (''n_repeated'', Num 5), (''class_sep'', Other), (''random_state'', Num 0)]]],
     [Simple [Call '''' ''RandomForestClassifier'' [] [(''n_jobs'', Num (- 1))]],
      Simple [Call '''' ''cross_validate'' [Other, Other, Other] [(''cv'', Num 5)],
              Call ''pd'' ''DataFrame'' [Other] []]],
     [Import ''sklearn.feature_selection'',
      Simple [Call '''' ''RandomForestClassifier'' [] [(''n_jobs'', Num (- 1))],
              Call '''' ''SelectFromModel'' [] [(''estimator'', Other)],
              Call '''' ''RandomForestClassifier'' [] [(''n_jobs'', Num (- 1))],
              Call '''' ''make_pipeline'' [Other, Other] []],
      Simple [Call '''' ''cross_validate'' [Other, Other, Other] [(''cv'', Num 5)],
              Call ''pd'' ''DataFrame'' [Other] []]],
     [Simple [Call ''pd'' ''concat'' [Other] [(''axis'', Num 1), (''keys'', Other)],
              Call ''pd.concat()'' ''swaplevel'' [] [(''axis'', Str ''columns'')]],
      Simple [Call ''cv_results[].plot'' ''box'' [] [(''vert'', Other), (''whis'', Num 100)]],
      Simple [Call ''plt'' ''xlabel'' [Str ''Accuracy''] []],
      Simple [Call ''plt'' ''title'' [Str ''Limitation of using a random forest for feature selection'']
                  []]]]"

definition repository :: "notebook list" where
  "repository =
     [numerical_pipeline, categorical_pipeline_ex_01, categorical_pipeline_sol_01,
      categorical_pipeline_column_transformer, parameter_tuning, parameter_tuning_search,
      trees, feature_selection]"

text \<open>
  \<^verbatim>\<open>src/.github/workflows/deploy-gh-pages.yml\<close>: the job that builds the book sets three
  environment variables and runs five shell commands.
\<close>

record workflow =
  runs_on :: string
  job_env :: "(string \<times> nat) list"
  commands :: "string list"

definition deploy_gh_pages :: workflow where
  "deploy_gh_pages =
     \<lparr>runs_on = ''ubuntu-latest'',
      job_env = [(''OMP_NUM_THREADS'', 1), (''MKL_NUM_THREADS'', 2), (''OPENBLAS_NUM_THREADS'', 2)],
      commands = [''pip install -r requirements.txt'', ''pip install jupyter-book'',
                  ''cd jupyter-book'', ''make'', ''cp -r jupyter-book/_build/html gh-pages'']\<rparr>"


section \<open>What a notebook calls and defines\<close>

text \<open>All calls of a statement, those of the bodies it contains included.\<close>

fun calls_of :: "stmt \<Rightarrow> call list" where
  "calls_of (Simple cs) = cs"
| "calls_of (Import m) = []"
| "calls_of (FunctionDef n body) = concat (map calls_of body)"
| "calls_of (ClassDef n body) = concat (map calls_of body)"
| "calls_of (ForLoop body) = concat (map calls_of body)"
| "calls_of (IfElse body orelse) = concat (map calls_of body) @ concat (map calls_of orelse)"
| "calls_of (WithBlock body) = concat (map calls_of body)"
| "calls_of (TryExcept body handler) = concat (map calls_of body) @ concat (map calls_of handler)"
| "calls_of (TimeMagic body) = concat (map calls_of body)"

definition calls :: "stmt list \<Rightarrow> call list" where
  "calls ss = concat (map calls_of ss)"






text \<open>
  The files a notebook names. The path of a call is its first positional argument when
  that is a string literal; \<open>read_csv\<close> is the one function called with a path, and three
  paths occur. The names called besides \<open>read_csv\<close> are listed as they first occur in
  the notebooks, from \<open>head\<close> to \<open>SelectFromModel\<close>: constructors, fits and scores,
  array and frame operations, plots and prints, and the three names of the notebooks' own
  that they call. For comparison, \<open>writers\<close> lists the entry points by which pandas,
  numpy, pickle, joblib, matplotlib and plotly save to a file, and Python's \<open>open\<close> and
  \<open>write\<close>.
\<close>

definition literal_path :: "call \<Rightarrow> string option" where
  "literal_path c = (case args c of Str p # _ \<Rightarrow> Some p | _ \<Rightarrow> None)"

definition csv_paths :: "string list" where
  "csv_paths = [''../datasets/adult-census.csv'', ''../datasets/penguins.csv'',
                ''../figures/randomized_search_results.csv'']"

definition fixed_csv_read :: "call \<Rightarrow> bool" where
  "fixed_csv_read c \<longleftrightarrow>
     callee c = ''read_csv'' \<and> list_ex (\<lambda>p. literal_path c = Some p) csv_paths"




text \<open>The four steps of a notebook, each read off the names it calls.\<close>

definition loads_csv :: "notebook \<Rightarrow> bool" where
  "loads_csv nb = list_ex fixed_csv_read (calls (concat nb))"

definition generators :: "string list" where
  "generators = [''make_classification'', ''make_regression'', ''make_blobs'', ''make_moons'',
                 ''make_circles'', ''randn'', ''randint'', ''rand'', ''normal'', ''uniform'']"

definition generates_data :: "notebook \<Rightarrow> bool" where
  "generates_data nb = list_ex (\<lambda>c. callee c \<in> set generators) (calls (concat nb))"

definition pipelines :: "string list" where
  "pipelines = [''Pipeline'', ''make_pipeline'']"

definition estimators :: "string list" where
  "estimators = [''LogisticRegression'', ''LinearRegression'', ''DecisionTreeClassifier'',
                 ''DecisionTreeRegressor'', ''HistGradientBoostingClassifier'',
                 ''RandomForestClassifier'', ''DummyClassifier'', ''GridSearchCV'',
                 ''RandomizedSearchCV'', ''Pipeline'', ''make_pipeline'']"

definition entry_points :: "string list" where
  "entry_points = [''fit'', ''predict'', ''predict_proba'', ''score'', ''transform'',
                   ''fit_transform'', ''cross_val_score'', ''cross_validate'']"

definition reporters :: "string list" where
  "reporters = [''print'', ''pprint'', ''heatmap'', ''pairplot'', ''scatterplot'', ''box'',
                ''contourf'', ''plot'', ''plot_tree'', ''parallel_coordinates'', ''show'']"

definition builds_pipeline :: "notebook \<Rightarrow> bool" where
  "builds_pipeline nb = list_ex (\<lambda>c. callee c \<in> set pipelines) (calls (concat nb))"

definition builds_estimator :: "notebook \<Rightarrow> bool" where
  "builds_estimator nb = list_ex (\<lambda>c. callee c \<in> set estimators) (calls (concat nb))"

definition calls_entry_point :: "notebook \<Rightarrow> bool" where
  "calls_entry_point nb = list_ex (\<lambda>c. callee c \<in> set entry_points) (calls (concat nb))"

definition reports :: "notebook \<Rightarrow> bool" where
  "reports nb = list_ex (\<lambda>c. callee c \<in> set reporters) (calls (concat nb))"

definition models :: "notebook \<Rightarrow> bool" where
  "models nb \<longleftrightarrow> builds_estimator nb \<and> calls_entry_point nb \<and> reports nb"

text \<open>
  The degree of parallelism a notebook asks of the library: the calls that pass
  \<open>n_jobs\<close>, with the value passed. The thread limits of the workflow: the variables of
  its environment that bound the threads of the numerical libraries.
\<close>

definition parallelism :: "notebook \<Rightarrow> (string \<times> arg) list" where
  "parallelism nb =
     List.map_filter (\<lambda>c. map_option (Pair (callee c)) (map_of (kwargs c) ''n_jobs''))
       (calls (concat nb))"

definition thread_variables :: "string list" where
  "thread_variables = [''OMP_NUM_THREADS'', ''MKL_NUM_THREADS'', ''OPENBLAS_NUM_THREADS'',
                       ''NUMEXPR_NUM_THREADS'', ''VECLIB_MAXIMUM_THREADS'']"

definition thread_limits :: "workflow \<Rightarrow> (string \<times> nat) list" where
  "thread_limits job = filter (\<lambda>kv. fst kv \<in> set thread_variables) (job_env job)"

text \<open>
  The functions and classes a notebook defines, each with the names its body calls, and
  the calls a notebook makes to what it defines.
\<close>

fun definitions_of :: "stmt \<Rightarrow> (string \<times> string list) list" where
  "definitions_of (Simple cs) = []"
| "definitions_of (Import m) = []"
| "definitions_of (FunctionDef n body) = [(n, map callee (calls body))]"
| "definitions_of (ClassDef n body) = [(n, map callee (calls body))]"
| "definitions_of (ForLoop body) = concat (map definitions_of body)"
| "definitions_of (IfElse body orelse) =
     concat (map definitions_of body) @ concat (map definitions_of orelse)"
| "definitions_of (WithBlock body) = concat (map definitions_of body)"
| "definitions_of (TryExcept body handler) =
     concat (map definitions_of body) @ concat (map definitions_of handler)"
| "definitions_of (TimeMagic body) = concat (map definitions_of body)"

definition own_code :: "notebook \<Rightarrow> (string \<times> string list) list" where
  "own_code nb = concat (map definitions_of (concat nb))"

definition own_calls :: "notebook \<Rightarrow> string list" where
  "own_calls nb =
     map callee (filter (\<lambda>c. receiver c = [] \<and> callee c \<in> set (map fst (own_code nb)))
       (calls (concat nb)))"

fun class_name :: "stmt \<Rightarrow> string list" where
  "class_name (ClassDef n body) = [n]"
| "class_name s = []"

definition classes :: "notebook \<Rightarrow> string list" where
  "classes nb = concat (map class_name (concat nb))"


section \<open>Running a notebook\<close>

text \<open>
  A run of a statement list starts from the functions defined so far and yields the
  trace of what happened, the outcome, and the functions defined at its end. The cells
  of a notebook run one after the other in one kernel, and a run stops at the first
  exception that reaches the top level of a cell, as it does when the book is built.
  The library is not modelled beyond what a call can do to the run:
  \<^item> any statement may raise any exception at any point between its calls: an import,
    a subscript, an attribute, the iteration of a loop (\<open>Raise\<close>);
  \<^item> any library call may fail with any exception (\<open>Fail\<close>), or return (\<open>Lib\<close>);
  \<^item> a call of \<open>cross_val_score\<close> or \<open>cross_validate\<close> given \<open>n_jobs\<close> other than 1
    may run its fits in worker processes, to which joblib hands an array above one
    megabyte as a memory-mapped file that it writes to a temporary folder (\<open>Spill\<close>);
    this is the one effect of the library on the file system that the model records,
    and nothing is concluded from the absence of a \<open>Spilled\<close> event;
  \<^item> a plain call of a name the notebook has defined runs the body of the function, or
    of the \<open>__init__\<close> of the class, and what the body defines stays local (\<open>Own\<close>,
    \<open>OwnFail\<close>);
  \<^item> \<open>def\<close> and \<open>class\<close> bind the name for the statements that follow;
  \<^item> a loop runs its body any number of times, a conditional either branch, a \<open>with\<close>
    its body and then the exit of its context manager, a step without a call; the one
    context manager of the notebooks, scikit-learn's \<open>config_context\<close>, lets the
    exception of its body pass;
  \<^item> \<open>try\<close> runs its handler when the body has raised, and goes on from what the
    handler does (\<open>TryCaught\<close>);
  \<^item> \<open>%%time\<close> runs the cell as IPython's magic does, inside
    \<^verbatim>\<open>try: exec(code, glob, local_ns) except: self.shell.showtraceback(); return\<close>:
    when the cell raises, the traceback of the exception is shown, the cell is over, and
    the run goes on with the next cell (\<open>TimedShown\<close>).
  A notebook runs in a kernel of its own: \<open>run\<close> starts with no function defined.
\<close>

datatype 'e event = Returned call | Failed call 'e | Raised 'e | Shown 'e | Spilled call
















text \<open>
  The run in which nothing goes wrong: every call returns, every loop runs its body once,
  every condition holds. It is a run of statements that define nothing
  (\<open>calm_completes\<close> below).
\<close>

fun calm_of :: "stmt \<Rightarrow> 'e event list" where
  "calm_of (Simple cs) = map Returned cs"
| "calm_of (Import m) = []"
| "calm_of (FunctionDef n body) = []"
| "calm_of (ClassDef n body) = []"
| "calm_of (ForLoop body) = concat (map calm_of body)"
| "calm_of (IfElse body orelse) = concat (map calm_of body)"
| "calm_of (WithBlock body) = concat (map calm_of body)"
| "calm_of (TryExcept body handler) = concat (map calm_of body)"
| "calm_of (TimeMagic body) = concat (map calm_of body)"

definition calm :: "stmt list \<Rightarrow> 'e event list" where
  "calm ss = concat (map calm_of ss)"







subsection \<open>What holds of every run\<close>

lemma calls_simps [simp]:
  "calls [] = []"
  "calls (s # ss) = calls_of s @ calls ss"
  "calls (xs @ ys) = calls xs @ calls ys"
  by (simp_all add: calls_def)

lemma calls_of_eq [simp]:
  "calls_of (FunctionDef n body) = calls body"
  "calls_of (ClassDef n body) = calls body"
  "calls_of (ForLoop body) = calls body"
  "calls_of (IfElse body orelse) = calls body @ calls orelse"
  "calls_of (WithBlock body) = calls body"
  "calls_of (TryExcept body handler) = calls body @ calls handler"
  "calls_of (TimeMagic body) = calls body"
  by (simp_all add: calls_def)

declare calls_of.simps(3-9) [simp del]















text \<open>Statements that define nothing have their calm run, whatever follows them.\<close>

lemma calm_simps [simp]:
  "calm [] = []"
  "calm (s # ss) = calm_of s @ calm ss"
  by (simp_all add: calm_def)







subsection \<open>What holds of the eight notebooks\<close>






lemma ex_01_in_repository: "categorical_pipeline_ex_01 \<in> set repository"
  by (simp add: repository_def)


lemma search_in_repository: "parameter_tuning_search \<in> set repository"
  by (simp add: repository_def)

lemma feature_selection_in_repository: "feature_selection \<in> set repository"
  by (simp add: repository_def)






subsection \<open>Exceptions and files\<close>







subsection \<open>The steps of each notebook\<close>

text \<open>
  Claim C2, as stated, for every notebook: it fails at the feature-selection notebook,
  which reads no CSV file and generates its data in memory (\<open>make_classification\<close>, and
  \<open>randn\<close> and \<open>randint\<close> of a seeded \<open>RandomState\<close>).
\<close>

theorem feature_selection_loads_no_csv:
  "feature_selection \<in> set repository
   \<and> \<not> loads_csv feature_selection
   \<and> generates_data feature_selection"
proof -
  have "\<not> loads_csv feature_selection" by code_simp
  moreover have "generates_data feature_selection" by code_simp
  ultimately show ?thesis using feature_selection_in_repository by simp
qed

text \<open>
  Claim C2, amended: every notebook but the feature-selection notebook obtains its data
  set by \<open>read_csv\<close> from a fixed relative path and generates none; the
  feature-selection notebook is the one notebook that loads no CSV file and the one that
  generates data in memory.
\<close>

theorem csv_loaded_except_feature_selection:
  "filter (\<lambda>nb. \<not> loads_csv nb) repository = [feature_selection]
   \<and> filter generates_data repository = [feature_selection]"
proof
  show "filter (\<lambda>nb. \<not> loads_csv nb) repository = [feature_selection]" by code_simp
  show "filter generates_data repository = [feature_selection]" by code_simp
qed

text \<open>
  Claim C5, as stated, for every notebook: it fails at the exercise notebook, which after
  loading the data and selecting the categorical columns constructs no estimator, calls
  no entry point and reports nothing (its modelling cell is left to the reader); and step
  (b) as worded, a pipeline, fails at the first notebook, which fits a bare
  \<open>LogisticRegression\<close>.
\<close>

theorem exercise_notebook_stops_short:
  "categorical_pipeline_ex_01 \<in> set repository
   \<and> \<not> builds_estimator categorical_pipeline_ex_01
   \<and> \<not> builds_pipeline categorical_pipeline_ex_01
   \<and> \<not> calls_entry_point categorical_pipeline_ex_01
   \<and> \<not> reports categorical_pipeline_ex_01
   \<and> numerical_pipeline \<in> set repository
   \<and> \<not> builds_pipeline numerical_pipeline"
proof -
  have "\<not> builds_estimator categorical_pipeline_ex_01" by code_simp
  moreover have "\<not> builds_pipeline categorical_pipeline_ex_01" by code_simp
  moreover have "\<not> calls_entry_point categorical_pipeline_ex_01" by code_simp
  moreover have "\<not> reports categorical_pipeline_ex_01" by code_simp
  moreover have "\<not> builds_pipeline numerical_pipeline" by code_simp
  moreover have "numerical_pipeline \<in> set repository" by (simp add: repository_def)
  ultimately show ?thesis using ex_01_in_repository by simp
qed

text \<open>
  Claim C5, amended: every notebook but the exercise notebook constructs library
  estimator objects, calls the library's fit, predict, score or cross-validation entry
  points, and renders a plot or prints a metric; the estimators are composed into a
  pipeline in all of these but the first notebook and the decision-tree notebook, which
  fit bare estimators. The exercise notebook stops after loading the data.
\<close>

theorem modelling_steps_except_exercise:
  "filter (\<lambda>nb. \<not> models nb) repository = [categorical_pipeline_ex_01]
   \<and> filter (\<lambda>nb. models nb \<and> \<not> builds_pipeline nb) repository = [numerical_pipeline, trees]"
proof
  show "filter (\<lambda>nb. \<not> models nb) repository = [categorical_pipeline_ex_01]" by code_simp
  show "filter (\<lambda>nb. models nb \<and> \<not> builds_pipeline nb) repository = [numerical_pipeline, trees]"
    by code_simp
qed

text \<open>
  Claim C6, as stated (no repository code selects a degree of parallelism or constrains
  the threading of the numerical libraries): it fails at the search notebook, which
  passes \<open>n_jobs=4\<close> to both searches, and at the deployment workflow, which bounds the
  threads of OpenMP, MKL and OpenBLAS.
\<close>

theorem search_notebook_selects_parallelism:
  "parameter_tuning_search \<in> set repository
   \<and> parallelism parameter_tuning_search
       = [(''GridSearchCV'', Num 4), (''RandomizedSearchCV'', Num 4)]
   \<and> map_of (job_env deploy_gh_pages) ''OMP_NUM_THREADS'' = Some 1"
proof -
  have "parallelism parameter_tuning_search
          = [(''GridSearchCV'', Num 4), (''RandomizedSearchCV'', Num 4)]"
    by code_simp
  moreover have "map_of (job_env deploy_gh_pages) ''OMP_NUM_THREADS'' = Some 1"
    by (simp add: deploy_gh_pages_def)
  ultimately show ?thesis using search_in_repository by simp
qed

text \<open>
  Claim C6, amended: parallel execution happens only inside the called library, but the
  repository does select its degree and does constrain the threading of the numerical
  libraries: the search notebook runs both searches with
  \<open>n_jobs=4\<close>, the feature-selection notebook builds its five random forests and runs
  one \<open>cross_val_score\<close> with \<open>n_jobs=-1\<close>, no other notebook passes \<open>n_jobs\<close>, and the
  deployment workflow limits OpenMP to one thread and MKL and OpenBLAS to two.
\<close>

theorem parallelism_selected:
  "map parallelism repository =
     [[], [], [], [], [],
      [(''GridSearchCV'', Num 4), (''RandomizedSearchCV'', Num 4)],
      [],
      [(''RandomForestClassifier'', Num (- 1)), (''RandomForestClassifier'', Num (- 1)),
       (''cross_val_score'', Num (- 1)), (''RandomForestClassifier'', Num (- 1)),
       (''RandomForestClassifier'', Num (- 1)), (''RandomForestClassifier'', Num (- 1))]]
   \<and> thread_limits deploy_gh_pages
       = [(''OMP_NUM_THREADS'', 1), (''MKL_NUM_THREADS'', 2), (''OPENBLAS_NUM_THREADS'', 2)]"
proof
  show "map parallelism repository =
     [[], [], [], [], [],
      [(''GridSearchCV'', Num 4), (''RandomizedSearchCV'', Num 4)],
      [],
      [(''RandomForestClassifier'', Num (- 1)), (''RandomForestClassifier'', Num (- 1)),
       (''cross_val_score'', Num (- 1)), (''RandomForestClassifier'', Num (- 1)),
       (''RandomForestClassifier'', Num (- 1)), (''RandomForestClassifier'', Num (- 1))]]"
    by code_simp
  show "thread_limits deploy_gh_pages
       = [(''OMP_NUM_THREADS'', 1), (''MKL_NUM_THREADS'', 2), (''OPENBLAS_NUM_THREADS'', 2)]"
    by (simp add: thread_limits_def deploy_gh_pages_def thread_variables_def)
qed

subsection \<open>The code of the repository's own\<close>

lemma samples_within_midpoint: "samples_within midpoint"
  by (simp add: samples_within_def midpoint_def)

text \<open>
  Claim C1, as stated (every definition of the repository only forwards to library entry
  points; no class implements a sampling or parsing computation of its own): it fails at
  the search notebook, which defines the class \<open>reciprocal_int\<close>. Its \<open>rvs\<close> does not
  hand on what the library samples: where the library draws \<open>128.5\<close> between \<open>2\<close> and
  \<open>255\<close>, it returns \<open>128\<close>. And the function \<open>shorten_param\<close> of the same notebook
  parses parameter names itself.
\<close>

theorem reciprocal_int_is_own_sampling:
  "parameter_tuning_search \<in> set repository
   \<and> classes parameter_tuning_search = [''reciprocal_int'']
   \<and> samples_within midpoint
   \<and> midpoint 2 255 () = 257 / 2
   \<and> sint (reciprocal_int_rvs 0 (reciprocal_int_init midpoint 2 255) ()) = 128
   \<and> shorten_param ''param_classifier__max_bins'' = Inr ''max_bins''"
proof -
  have c: "classes parameter_tuning_search = [''reciprocal_int'']" by code_simp
  have m: "midpoint 2 255 () = 257 / 2" by (simp add: midpoint_def)
  have "sint (astype_int 0 (257 / 2)) = \<lfloor>257 / 2 :: real\<rfloor>"
    by (rule sint_astype_int) simp_all
  then have s: "sint (reciprocal_int_rvs 0 (reciprocal_int_init midpoint 2 255) ()) = 128"
    by (simp add: reciprocal_int_rvs_def reciprocal_int_init_def midpoint_def)
  have p: "shorten_param ''param_classifier__max_bins'' = Inr ''max_bins''"
    by (simp add: shorten_param_def rsplit1_def getitem_def)
  from search_in_repository c samples_within_midpoint m s p show ?thesis by simp
qed

text \<open>
  Claim C1, amended: the repository defines exactly four functions and classes of its
  own, in two notebooks: \<open>shorten_param\<close>, which parses a parameter name itself, with
  Python's \<open>rsplit\<close>; the class \<open>reciprocal_int\<close>, which samples from the library's
  \<open>reciprocal\<close> and converts the sample itself, with \<open>astype\<close>; and the plotting helpers
  \<open>plot_decision_function\<close> and \<open>plot_regression_model\<close>, whose bodies only call
  library entry points (fit, predict, the label encoder, numpy grids, matplotlib and
  seaborn plots). The notebooks call these helpers and construct the class; every other
  call, and with it all model fitting, cross-validation, search, tree construction and
  encoding, is a call into the library.
\<close>

theorem own_code_of_the_repository:
  "map own_code repository =
     [[], [], [], [], [],
      [(''shorten_param'', [''rsplit'']),
       (''reciprocal_int'', [''reciprocal'', ''rvs'', ''astype''])],
      [(''plot_decision_function'',
        [''fit'', ''min'', ''max'', ''min'', ''max'', ''arange'', ''arange'', ''meshgrid'',
         ''ravel'', ''ravel'', ''predict'', ''LabelEncoder'', ''fit_transform'', ''reshape'',
         ''subplots'', ''contourf'', ''concat'', ''scatterplot'']),
       (''plot_regression_model'',
        [''fit'', ''concat'', ''subplots'', ''scatterplot'', ''min'', ''max'', ''linspace'',
         ''reshape'', ''predict'', ''plot'', ''legend''])],
      []]
   \<and> map (remdups \<circ> own_calls) repository =
     [[], [], [], [], [], [''reciprocal_int''],
      [''plot_decision_function'', ''plot_regression_model''], []]"
proof
  show "map own_code repository =
     [[], [], [], [], [],
      [(''shorten_param'', [''rsplit'']),
       (''reciprocal_int'', [''reciprocal'', ''rvs'', ''astype''])],
      [(''plot_decision_function'',
        [''fit'', ''min'', ''max'', ''min'', ''max'', ''arange'', ''arange'', ''meshgrid'',
         ''ravel'', ''ravel'', ''predict'', ''LabelEncoder'', ''fit_transform'', ''reshape'',
         ''subplots'', ''contourf'', ''concat'', ''scatterplot'']),
       (''plot_regression_model'',
        [''fit'', ''concat'', ''subplots'', ''scatterplot'', ''min'', ''max'', ''linspace'',
         ''reshape'', ''predict'', ''plot'', ''legend''])],
      []]"
    by code_simp
  show "map (remdups \<circ> own_calls) repository =
     [[], [], [], [], [], [''reciprocal_int''],
      [''plot_decision_function'', ''plot_regression_model''], []]"
    by code_simp
qed


end
